theory Spec2Isabelle
  imports
    Complex_Main
    "HOL-Library.Sublist"
    "HOL-Library.List_Lexorder"
    "HOL-Library.Char_ord"
    "HOL-Library.Product_Lexorder"
begin

section \<open>The data frame of \<^verbatim>\<open>women_violence_streamlit.py\<close>\<close>

text \<open>
  The script reads one CSV file into a pandas data frame, cleans it
  (\<^verbatim>\<open>clean_data\<close>), filters it by the sidebar widgets and feeds grouped
  summaries to the charts. A data frame is modelled as the list of its rows in
  frame order. The CSV has the columns Country, Gender, Survey Year,
  Demographics Question, Demographics Response, Question and Value, so the two
  guards \<^verbatim>\<open>if 'Value' in df_clean.columns\<close> and
  \<^verbatim>\<open>if 'Survey Year' in df_clean.columns\<close> hold and \<^verbatim>\<open>dropna\<close> finds
  its subset.

  A cell of a text column is a string or missing (NaN): \<open>string option\<close>.
  A cell of Value is a float64 number or missing (NaN): \<open>'v option\<close>. The type
  \<open>'v\<close> stands for the float64 values other than NaN, the two infinities
  among them (\<^verbatim>\<open>read_csv\<close> reads them), in the order of the floats; no
  arithmetic is assumed on it. Where pandas computes with floats (the mean of
  the two middle values in a median, the mean of a group) the rounded,
  possibly infinite or NaN result is what numpy delivers, and that function is
  a parameter of the model.
  A cell of Survey Year is the text read from the file, a parsed timestamp
  (after \<^verbatim>\<open>pd.to_datetime\<close>), or missing (NaN before parsing, NaT after).
  Every row carries its index label, which pandas keeps through
  \<^verbatim>\<open>dropna\<close> and boolean indexing.
\<close>

record timestamp =
  year :: int
  month :: nat
  day :: nat
  nanos :: nat

datatype date_cell = Text string | Stamp timestamp | NaT

record 'v row =
  label :: nat
  Country :: "string option"
  Gender :: "string option"
  Survey_Year :: date_cell
  Demographics_Question :: "string option"
  Demographics_Response :: "string option"
  Question :: "string option"
  Value :: "'v option"

type_synonym 'v frame = "'v row list"

datatype error = AttributeError | ValueError

subsection \<open>Series operations\<close>

text \<open>\<^verbatim>\<open>Series.dropna()\<close>: the non-missing cells, in order.\<close>

fun dropna :: "'a option list \<Rightarrow> 'a list" where
  "dropna [] = []"
| "dropna (None # xs) = dropna xs"
| "dropna (Some x # xs) = x # dropna xs"

text \<open>
  \<^verbatim>\<open>Series.median()\<close> skips the missing cells; it is the middle element of
  the sorted rest, the float mean of the two middle elements when their number
  is even, and NaN when nothing is left. The float mean of two numbers is the
  parameter \<open>mid\<close>: \<open>mid a b\<close> is the rounded \<^verbatim>\<open>(a + b) / 2\<close>, which may
  be an infinity, or \<open>None\<close> when it is NaN (as for the two infinities).
\<close>

definition median :: "('v \<Rightarrow> 'v \<Rightarrow> 'v option) \<Rightarrow> ('v::linorder) option list \<Rightarrow> 'v option" where
  "median mid col =
     (let s = sort (dropna col); n = length s
      in if n = 0 then None
         else if odd n then Some (s ! (n div 2))
         else mid (s ! (n div 2 - 1)) (s ! (n div 2)))"

text \<open>\<^verbatim>\<open>Series.fillna(v)\<close>; the fill value may itself be NaN.\<close>

definition fillna :: "'v option list \<Rightarrow> 'v option \<Rightarrow> 'v option list" where
  "fillna col v = map (\<lambda>c. case c of None \<Rightarrow> v | Some x \<Rightarrow> Some x) col"

text \<open>
  \<^verbatim>\<open>pd.to_datetime(col, errors='coerce')\<close>. The parser for text belongs to
  pandas, not to this repository, and is a parameter: \<open>parse col s\<close> is the
  timestamp read from the text \<open>s\<close>, or \<open>None\<close> when the text does not parse
  (which \<^verbatim>\<open>errors='coerce'\<close> turns into NaT). It sees the whole column,
  since pandas may infer one format from the first cell and apply it to all.
  A timestamp stays as it is and a missing cell becomes NaT.
\<close>

fun convert_cell ::
  "(date_cell list \<Rightarrow> string \<Rightarrow> timestamp option) \<Rightarrow> date_cell list \<Rightarrow> date_cell \<Rightarrow> date_cell" where
  "convert_cell parse col (Text s) = (case parse col s of None \<Rightarrow> NaT | Some t \<Rightarrow> Stamp t)"
| "convert_cell parse col (Stamp t) = Stamp t"
| "convert_cell parse col NaT = NaT"

definition to_datetime ::
  "(date_cell list \<Rightarrow> string \<Rightarrow> timestamp option) \<Rightarrow> date_cell list \<Rightarrow> date_cell list" where
  "to_datetime parse col = map (convert_cell parse col) col"

text \<open>Column assignment \<^verbatim>\<open>df['Value'] = col\<close> and \<^verbatim>\<open>df['Survey Year'] = col\<close>.\<close>

definition assign_Value :: "'v frame \<Rightarrow> 'v option list \<Rightarrow> 'v frame" where
  "assign_Value df col = map (\<lambda>(r, v). r\<lparr>Value := v\<rparr>) (zip df col)"

definition assign_Survey_Year :: "'v frame \<Rightarrow> date_cell list \<Rightarrow> 'v frame" where
  "assign_Survey_Year df col = map (\<lambda>(r, c). r\<lparr>Survey_Year := c\<rparr>) (zip df col)"

text \<open>\<^verbatim>\<open>df.dropna(subset=['Value', 'Survey Year'])\<close>.\<close>

definition dropna_subset :: "'v frame \<Rightarrow> 'v frame" where
  "dropna_subset df = filter (\<lambda>r. Value r \<noteq> None \<and> Survey_Year r \<noteq> NaT) df"

subsection \<open>Cleaning\<close>

definition clean_data ::
  "('v \<Rightarrow> 'v \<Rightarrow> 'v option) \<Rightarrow> (date_cell list \<Rightarrow> string \<Rightarrow> timestamp option)
     \<Rightarrow> ('v::linorder) frame \<Rightarrow> 'v frame" where
  "clean_data mid parse df =
     (let df_clean = df;
          median_value = median mid (map Value df_clean);
          df_clean = assign_Value df_clean (fillna (map Value df_clean) median_value);
          df_clean = assign_Survey_Year df_clean (to_datetime parse (map Survey_Year df_clean));
          df_clean = dropna_subset df_clean
      in df_clean)"

subsection \<open>The sidebar filter\<close>

text \<open>
  The widgets deliver \<^verbatim>\<open>year_range\<close> (a pair of years) and the three
  selections. The options of each multiselect are the non-missing values of its
  column, so a selection is a list of strings and never holds NaN.
\<close>

record FilterParams =
  year_range :: "int \<times> int"
  selected_countries :: "string list"
  selected_genders :: "string list"
  selected_demographics :: "string list"

text \<open>
  \<^verbatim>\<open>col.dt.year\<close>. The accessor exists on a datetime column only and raises
  AttributeError on a column of text. The model reads the column type off the
  cells: a column holding a \<open>Text\<close> cell is a column of text. (Every frame the
  script applies it to has been through \<^verbatim>\<open>pd.to_datetime\<close>.) The year of
  NaT is NaN.
\<close>

fun is_Text :: "date_cell \<Rightarrow> bool" where
  "is_Text (Text s) = True"
| "is_Text (Stamp t) = False"
| "is_Text NaT = False"

fun year_of :: "date_cell \<Rightarrow> int option" where
  "year_of (Stamp t) = Some (year t)"
| "year_of (Text s) = None"
| "year_of NaT = None"

definition dt_year :: "date_cell list \<Rightarrow> error + int option list" where
  "dt_year col = (if list_ex is_Text col then Inl AttributeError else Inr (map year_of col))"

text \<open>Comparisons of a numeric column with a number; a comparison with NaN is False.\<close>

definition ge_col :: "int option list \<Rightarrow> int \<Rightarrow> bool list" where
  "ge_col col n = map (\<lambda>c. case c of None \<Rightarrow> False | Some y \<Rightarrow> y \<ge> n) col"

definition le_col :: "int option list \<Rightarrow> int \<Rightarrow> bool list" where
  "le_col col n = map (\<lambda>c. case c of None \<Rightarrow> False | Some y \<Rightarrow> y \<le> n) col"

text \<open>\<^verbatim>\<open>col.isin(values)\<close> for a list of strings: a missing cell is in no such list.\<close>

definition isin :: "string option list \<Rightarrow> string list \<Rightarrow> bool list" where
  "isin col vals = map (\<lambda>c. case c of None \<Rightarrow> False | Some s \<Rightarrow> s \<in> set vals) col"

text \<open>The elementwise \<^verbatim>\<open>&\<close> of two masks and boolean indexing \<^verbatim>\<open>df[mask]\<close>.\<close>

definition mask_and :: "bool list \<Rightarrow> bool list \<Rightarrow> bool list" where
  "mask_and a b = map (\<lambda>(x, y). x \<and> y) (zip a b)"

definition select_rows :: "'v frame \<Rightarrow> bool list \<Rightarrow> 'v frame" where
  "select_rows df msk = map fst (filter snd (zip df msk))"

text \<open>Lines 209 to 215: the frame \<^verbatim>\<open>filtered\<close> computed when the button is pressed.\<close>

definition filtered :: "FilterParams \<Rightarrow> 'v frame \<Rightarrow> error + 'v frame" where
  "filtered p df_clean =
     (case dt_year (map Survey_Year df_clean) of
        Inl e \<Rightarrow> Inl e
      | Inr years \<Rightarrow>
          Inr (select_rows df_clean
            (mask_and
              (mask_and
                (mask_and
                  (mask_and (ge_col years (fst (year_range p))) (le_col years (snd (year_range p))))
                  (isin (map Country df_clean) (selected_countries p)))
                (isin (map Gender df_clean) (selected_genders p)))
              (isin (map Demographics_Question df_clean) (selected_demographics p)))))"

text \<open>
  Lines 205 to 222: the session slot \<^verbatim>\<open>st.session_state['df_filtered']\<close>
  (\<open>None\<close> when the key is absent) is set to a copy of \<^verbatim>\<open>df_clean\<close> on the
  first run and overwritten by \<^verbatim>\<open>filtered\<close> when the button was pressed.
  The result is the slot after the run, which is the \<^verbatim>\<open>df_filtered\<close> the
  charts read.
\<close>

definition df_filtered ::
  "'v frame option \<Rightarrow> bool \<Rightarrow> FilterParams \<Rightarrow> 'v frame \<Rightarrow> error + 'v frame" where
  "df_filtered session_state submit_button p df_clean =
     (let slot = (case session_state of None \<Rightarrow> df_clean | Some d \<Rightarrow> d)
      in if submit_button then filtered p df_clean else Inr slot)"

text \<open>
  The filter as the specification words it: a row is retained when the year of
  its Survey Year lies within the inclusive bounds and its Country, its Gender
  and its Demographics Question are each in the selected set.
\<close>

definition in_selection :: "string option \<Rightarrow> string list \<Rightarrow> bool" where
  "in_selection c vals = (case c of None \<Rightarrow> False | Some s \<Rightarrow> s \<in> set vals)"

definition retained :: "FilterParams \<Rightarrow> 'v row \<Rightarrow> bool" where
  "retained p r =
     ((case Survey_Year r of
         Stamp t \<Rightarrow> fst (year_range p) \<le> year t \<and> year t \<le> snd (year_range p)
       | Text s \<Rightarrow> False
       | NaT \<Rightarrow> False)
      \<and> in_selection (Country r) (selected_countries p)
      \<and> in_selection (Gender r) (selected_genders p)
      \<and> in_selection (Demographics_Question r) (selected_demographics p))"

subsection \<open>The aggregations behind the charts\<close>

text \<open>
  \<^verbatim>\<open>Series.value_counts()\<close> counts each non-missing value and orders the
  counts descending. Values of equal count are listed here in order of first
  appearance; nothing below depends on the order among equal counts.
\<close>

definition value_counts :: "'a option list \<Rightarrow> ('a \<times> nat) list" where
  "value_counts col =
     (let xs = dropna col
      in sort_key (\<lambda>(k, c). - int c) (map (\<lambda>k. (k, count_list xs k)) (rev (remdups (rev xs)))))"

text \<open>
  \<^verbatim>\<open>groupby\<close> leaves out the rows whose key is missing and lists the groups
  in ascending order of the key, each key once. A key over two columns is
  missing when either part is, and pairs are ordered lexicographically. Strings
  are ordered character by character, as Python orders them.
\<close>

definition group_keys :: "('k::linorder) option list \<Rightarrow> 'k list" where
  "group_keys keys = sort (remdups (dropna keys))"

definition groupby :: "('k::linorder) option list \<Rightarrow> 'v list \<Rightarrow> ('k \<times> 'v list) list" where
  "groupby keys vals =
     map (\<lambda>k. (k, map snd (filter (\<lambda>(k', v). k' = Some k) (zip keys vals)))) (group_keys keys)"

fun key2 :: "'a option \<times> 'b option \<Rightarrow> ('a \<times> 'b) option" where
  "key2 (Some a, Some b) = Some (a, b)"
| "key2 (None, b) = None"
| "key2 (a, None) = None"

text \<open>
  \<^verbatim>\<open>mean()\<close> of a group skips NaN and is NaN when nothing is left. The
  float mean of the numbers that are left is the parameter \<open>avg\<close>; it is
  \<open>None\<close> when that mean is NaN.
\<close>

definition mean :: "('v list \<Rightarrow> 'v option) \<Rightarrow> 'v option list \<Rightarrow> 'v option" where
  "mean avg col =
     (let xs = dropna col
      in if xs = [] then None else avg xs)"

definition groupby_mean ::
  "('v list \<Rightarrow> 'v option) \<Rightarrow> ('k::linorder) option list \<Rightarrow> 'v option list
     \<Rightarrow> ('k \<times> 'v option) list" where
  "groupby_mean avg keys vals = map (\<lambda>(k, g). (k, mean avg g)) (groupby keys vals)"

definition groupby_size :: "('k::linorder) option list \<Rightarrow> ('k \<times> nat) list" where
  "groupby_size keys = map (\<lambda>(k, g). (k, length g)) (groupby keys keys)"

text \<open>
  \<^verbatim>\<open>DataFrame.pivot(index, columns, values)\<close> raises ValueError when an
  (index, column) pair occurs twice. The result has the sorted index values as
  rows and the sorted column values as columns; a cell without an entry is NaN.
\<close>

record ('i, 'c, 'v) pivot_table =
  pivot_index :: "'i list"
  pivot_columns :: "'c list"
  pivot_cells :: "'v option list list"

definition pivot ::
  "(('i::linorder \<times> 'c::linorder) \<times> 'v option) list \<Rightarrow> error + ('i, 'c, 'v) pivot_table" where
  "pivot t =
     (if \<not> distinct (map fst t) then Inl ValueError
      else
        let idx = sort (remdups (map (\<lambda>((i, c), v). i) t));
            cols = sort (remdups (map (\<lambda>((i, c), v). c) t))
        in Inr \<lparr>pivot_index = idx, pivot_columns = cols,
                pivot_cells =
                  map (\<lambda>i. map (\<lambda>c. case map_of t (i, c) of None \<Rightarrow> None | Some v \<Rightarrow> v) cols) idx\<rparr>)"

text \<open>Chart 2, line 237.\<close>

definition gender_counts :: "'v frame \<Rightarrow> (string \<times> nat) list" where
  "gender_counts df = value_counts (map Gender df)"

text \<open>
  Chart 3, line 249: the non-missing questions joined by single spaces. The
  script calls the result \<^verbatim>\<open>text\<close>. The word cloud made of it on the next
  line, like every chart, is drawn by a library and is not part of this model.
\<close>

fun join_space :: "string list \<Rightarrow> string" where
  "join_space [] = []"
| "join_space [q] = q"
| "join_space (q # qs) = q @ '' '' @ join_space qs"

definition text_of_questions :: "'v frame \<Rightarrow> string" where
  "text_of_questions df = join_space (dropna (map Question df))"

text \<open>Chart 4, line 263.\<close>

definition df_question_avg ::
  "('v list \<Rightarrow> 'v option) \<Rightarrow> 'v frame \<Rightarrow> (string \<times> 'v option) list" where
  "df_question_avg avg df = groupby_mean avg (map Question df) (map Value df)"

text \<open>Chart 5, line 275.\<close>

definition df_yearly_avg ::
  "('v list \<Rightarrow> 'v option) \<Rightarrow> 'v frame \<Rightarrow> error + (int \<times> 'v option) list" where
  "df_yearly_avg avg df =
     (case dt_year (map Survey_Year df) of
        Inl e \<Rightarrow> Inl e
      | Inr years \<Rightarrow> Inr (groupby_mean avg years (map Value df)))"

text \<open>Chart 6, line 286.\<close>

definition df_sunburst_data ::
  "('v list \<Rightarrow> 'v option) \<Rightarrow> 'v frame \<Rightarrow> ((string \<times> string) \<times> 'v option) list" where
  "df_sunburst_data avg df =
     groupby_mean avg (map (\<lambda>r. key2 (Demographics_Question r, Demographics_Response r)) df)
       (map Value df)"

text \<open>Chart 7, lines 297 and 298.\<close>

definition df_heatmap_data ::
  "('v list \<Rightarrow> 'v option) \<Rightarrow> 'v frame \<Rightarrow> ((string \<times> string) \<times> 'v option) list" where
  "df_heatmap_data avg df =
     groupby_mean avg (map (\<lambda>r. key2 (Demographics_Question r, Question r)) df) (map Value df)"

definition heatmap_data ::
  "('v list \<Rightarrow> 'v option) \<Rightarrow> 'v frame \<Rightarrow> error + (string, string, 'v) pivot_table" where
  "heatmap_data avg df = pivot (df_heatmap_data avg df)"

text \<open>Chart 9, line 321.\<close>

definition df_grouped_gender ::
  "('v list \<Rightarrow> 'v option) \<Rightarrow> 'v frame \<Rightarrow> ((string \<times> string) \<times> 'v option) list" where
  "df_grouped_gender avg df =
     groupby_mean avg (map (\<lambda>r. key2 (Demographics_Question r, Gender r)) df) (map Value df)"

text \<open>Chart 10, line 333.\<close>

definition df_stacked_bar_data :: "'v frame \<Rightarrow> ((string \<times> string) \<times> nat) list" where
  "df_stacked_bar_data df =
     groupby_size (map (\<lambda>r. key2 (Demographics_Question r, Demographics_Response r)) df)"

subsection \<open>Sample data\<close>

text \<open>
  The examples below take the rationals for the numbers, with the exact mean
  of two numbers and of a list (the float means of the numbers that occur in
  them are exact), and a parser that reads the two texts that occur in them
  and nothing else.
\<close>

definition exact_mid :: "rat \<Rightarrow> rat \<Rightarrow> rat option" where
  "exact_mid a b = Some ((a + b) / 2)"

definition exact_avg :: "rat list \<Rightarrow> rat option" where
  "exact_avg xs = Some (sum_list xs / of_nat (length xs))"

definition sample_parse :: "date_cell list \<Rightarrow> string \<Rightarrow> timestamp option" where
  "sample_parse col s =
     (if s = ''01/01/2010'' then Some \<lparr>year = 2010, month = 1, day = 1, nanos = 0\<rparr>
      else if s = ''01/01/2015'' then Some \<lparr>year = 2015, month = 1, day = 1, nanos = 0\<rparr>
      else None)"

definition sample_row ::
  "nat \<Rightarrow> string option \<Rightarrow> string option \<Rightarrow> date_cell \<Rightarrow> rat option \<Rightarrow> rat row" where
  "sample_row i c g d v =
     \<lparr>label = i, Country = c, Gender = g, Survey_Year = d,
      Demographics_Question = Some ''Age'', Demographics_Response = Some ''15-24'',
      Question = Some ''... if she burns the food'', Value = v\<rparr>"

definition sample_params :: FilterParams where
  "sample_params =
     \<lparr>year_range = (2000, 2020), selected_countries = [''A''], selected_genders = [''M''],
      selected_demographics = [''Age'']\<rparr>"

definition sample_raw :: "rat frame" where
  "sample_raw =
     [sample_row 0 (Some ''A'') (Some ''M'') (Text ''01/01/2010'') (Some 10),
      sample_row 1 (Some ''B'') (Some ''F'') (Text ''01/01/2015'') None,
      sample_row 2 (Some ''A'') (Some ''M'') (Text ''01/01/2015'') (Some 30)]"

definition sample_clean :: "rat frame" where
  "sample_clean =
     [sample_row 0 (Some ''A'') (Some ''M'')
        (Stamp \<lparr>year = 2010, month = 1, day = 1, nanos = 0\<rparr>) (Some 10),
      sample_row 1 (Some ''B'') (Some ''F'')
        (Stamp \<lparr>year = 2015, month = 1, day = 1, nanos = 0\<rparr>) (Some 20),
      sample_row 2 (Some ''A'') (Some ''M'')
        (Stamp \<lparr>year = 2015, month = 1, day = 1, nanos = 0\<rparr>) (Some 30)]"

definition sample_skewed :: "rat frame" where
  "sample_skewed =
     [sample_row 0 (Some ''A'') (Some ''M'') (Text ''01/01/2010'') (Some 10),
      sample_row 1 (Some ''B'') (Some ''F'') (Text ''01/01/2015'') None,
      sample_row 2 (Some ''A'') (Some ''M'') (Text ''01/01/2015'') (Some 30),
      sample_row 3 (Some ''A'') (Some ''F'') (Text ''01/01/2015'') (Some 80)]"

definition sample_bad_date :: "rat frame" where
  "sample_bad_date =
     [sample_row 0 (Some ''A'') (Some ''M'') (Text ''01/01/2010'') (Some 10),
      sample_row 1 (Some ''B'') (Some ''F'') (Text ''not-a-date'') (Some 20)]"

definition sample_no_value :: "rat frame" where
  "sample_no_value =
     [sample_row 0 (Some ''A'') (Some ''M'') (Text ''01/01/2010'') None,
      sample_row 1 (Some ''B'') (Some ''F'') (Text ''01/01/2015'') None]"

definition sample_no_gender :: "rat frame" where
  "sample_no_gender = [sample_row 0 (Some ''A'') None (Text ''01/01/2010'') (Some 10)]"

section \<open>Notions used in the statements\<close>

text \<open>What one row becomes under \<^verbatim>\<open>clean_data\<close>, before rows are dropped.\<close>

definition fill_value :: "'v option \<Rightarrow> 'v option \<Rightarrow> 'v option" where
  "fill_value m v = (case v of None \<Rightarrow> m | Some x \<Rightarrow> Some x)"

definition clean_row ::
  "('v \<Rightarrow> 'v \<Rightarrow> 'v option) \<Rightarrow> (date_cell list \<Rightarrow> string \<Rightarrow> timestamp option)
     \<Rightarrow> ('v::linorder) frame \<Rightarrow> 'v row \<Rightarrow> 'v row" where
  "clean_row mid parse df r =
     r\<lparr>Value := fill_value (median mid (map Value df)) (Value r),
       Survey_Year := convert_cell parse (map Survey_Year df) (Survey_Year r)\<rparr>"

text \<open>
  The median as the word is understood, without sorting. A value of the list
  stands at place \<open>k\<close> (counting from 0) in the order of the values when at
  most \<open>k\<close> values are below it and more than \<open>k\<close> are not above it. The
  median of a list of \<open>n\<close> values is the value at the middle place when \<open>n\<close>
  is odd, and the float mean \<open>mid a b\<close> of the values \<open>a\<close> and \<open>b\<close> at the
  two middle places when \<open>n\<close> is even; the empty list has none.
\<close>

definition is_kth :: "('v::linorder) list \<Rightarrow> nat \<Rightarrow> 'v \<Rightarrow> bool" where
  "is_kth xs k a =
     (a \<in> set xs \<and> length (filter (\<lambda>x. x < a) xs) \<le> k \<and> k < length (filter (\<lambda>x. x \<le> a) xs))"

definition is_median :: "('v \<Rightarrow> 'v \<Rightarrow> 'v option) \<Rightarrow> ('v::linorder) list \<Rightarrow> 'v \<Rightarrow> bool" where
  "is_median mid xs m =
     (let n = length xs
      in xs \<noteq> []
         \<and> (if odd n then is_kth xs (n div 2) m
            else list_ex (\<lambda>a. list_ex (\<lambda>b.
                   is_kth xs (n div 2 - 1) a \<and> is_kth xs (n div 2) b \<and> mid a b = Some m) xs) xs))"

text \<open>
  A Survey Year cell parses as a date when \<^verbatim>\<open>pd.to_datetime\<close> gives a
  timestamp for it: a text the parser reads, or a timestamp already.
\<close>

definition date_parses ::
  "(date_cell list \<Rightarrow> string \<Rightarrow> timestamp option) \<Rightarrow> date_cell list \<Rightarrow> date_cell \<Rightarrow> bool" where
  "date_parses parse col c =
     (case c of Text s \<Rightarrow> parse col s \<noteq> None | Stamp t \<Rightarrow> True | NaT \<Rightarrow> False)"

definition survives ::
  "('v \<Rightarrow> 'v \<Rightarrow> 'v option) \<Rightarrow> (date_cell list \<Rightarrow> string \<Rightarrow> timestamp option)
     \<Rightarrow> ('v::linorder) frame \<Rightarrow> 'v row \<Rightarrow> bool" where
  "survives mid parse df r =
     (fill_value (median mid (map Value df)) (Value r) \<noteq> None
      \<and> date_parses parse (map Survey_Year df) (Survey_Year r))"

text \<open>The invariants of a cleaned dataset: no missing Value, every Survey Year a timestamp.\<close>

fun is_Stamp :: "date_cell \<Rightarrow> bool" where
  "is_Stamp (Stamp t) = True"
| "is_Stamp (Text s) = False"
| "is_Stamp NaT = False"

definition cleaned_invariants :: "'v frame \<Rightarrow> bool" where
  "cleaned_invariants df = list_all (\<lambda>r. Value r \<noteq> None \<and> is_Stamp (Survey_Year r)) df"

text \<open>The fields of a row other than Value and Survey Year, with its index label.\<close>

definition other_fields ::
  "'v row \<Rightarrow> nat \<times> string option \<times> string option \<times> string option \<times> string option \<times> string option" where
  "other_fields r =
     (label r, Country r, Gender r, Demographics_Question r, Demographics_Response r, Question r)"

text \<open>The Survey Year column is a datetime column: it holds no text.\<close>

definition datetime_column :: "'v frame \<Rightarrow> bool" where
  "datetime_column df = (\<not> list_ex is_Text (map Survey_Year df))"

section \<open>Cleaning\<close>

lemma zip_map_self: "map (\<lambda>(r, v). f r v) (zip xs (map g xs)) = map (\<lambda>r. f r (g r)) xs"
  by (induction xs) auto

lemma assign_Value_map: "assign_Value df (map g df) = map (\<lambda>r. r\<lparr>Value := g r\<rparr>) df"
  unfolding assign_Value_def by (rule zip_map_self)

lemma assign_Survey_Year_map:
  "assign_Survey_Year df (map g df) = map (\<lambda>r. r\<lparr>Survey_Year := g r\<rparr>) df"
  unfolding assign_Survey_Year_def by (rule zip_map_self)

lemma fillna_map: "fillna (map Value df) m = map (\<lambda>r. fill_value m (Value r)) df"
  by (simp add: fillna_def fill_value_def)

lemma clean_data_rowwise:
  "clean_data mid parse df = dropna_subset (map (clean_row mid parse df) df)"
proof -
  let ?m = "median mid (map Value df)"
  let ?df1 = "map (\<lambda>r. r\<lparr>Value := fill_value ?m (Value r)\<rparr>) df"
  have 1: "assign_Value df (fillna (map Value df) ?m) = ?df1"
    by (simp add: fillna_map assign_Value_def zip_map_self)
  have 2: "map Survey_Year ?df1 = map Survey_Year df"
    by simp
  have 3: "to_datetime parse (map Survey_Year df)
             = map (\<lambda>r. convert_cell parse (map Survey_Year df) (Survey_Year r)) ?df1"
    by (simp add: to_datetime_def comp_def)
  have 4: "assign_Survey_Year ?df1 (to_datetime parse (map Survey_Year ?df1))
             = map (clean_row mid parse df) df"
    unfolding 2 3 assign_Survey_Year_map by (simp add: clean_row_def comp_def)
  show ?thesis
    unfolding clean_data_def Let_def 1 4 ..
qed

lemma is_Stamp_iff: "is_Stamp c \<longleftrightarrow> (\<exists>t. c = Stamp t)"
  by (cases c) auto

lemma convert_cell_NaT: "convert_cell parse col c \<noteq> NaT \<longleftrightarrow> date_parses parse col c"
  by (cases c) (auto simp: date_parses_def split: option.splits)

lemma convert_cell_not_Text: "\<not> is_Text (convert_cell parse col c)"
  by (cases c) (auto split: option.splits)

lemma clean_row_fields [simp]:
  "label (clean_row mid parse df r) = label r"
  "Country (clean_row mid parse df r) = Country r"
  "Gender (clean_row mid parse df r) = Gender r"
  "Demographics_Question (clean_row mid parse df r) = Demographics_Question r"
  "Demographics_Response (clean_row mid parse df r) = Demographics_Response r"
  "Question (clean_row mid parse df r) = Question r"
  "Value (clean_row mid parse df r) = fill_value (median mid (map Value df)) (Value r)"
  "Survey_Year (clean_row mid parse df r) = convert_cell parse (map Survey_Year df) (Survey_Year r)"
  by (simp_all add: clean_row_def)

lemma clean_data_survivors:
  "clean_data mid parse df = map (clean_row mid parse df) (filter (survives mid parse df) df)"
proof -
  have "(\<lambda>r. Value r \<noteq> None \<and> Survey_Year r \<noteq> NaT) \<circ> clean_row mid parse df = survives mid parse df"
    by (auto simp: fun_eq_iff survives_def convert_cell_NaT)
  then show ?thesis
    unfolding clean_data_rowwise dropna_subset_def filter_map by simp
qed

lemma clean_data_invariant:
  assumes "c \<in> set (clean_data mid parse df)"
  shows "Value c \<noteq> None" and "\<exists>t. Survey_Year c = Stamp t"
proof -
  from assms obtain r where r: "r \<in> set df" "survives mid parse df r" "c = clean_row mid parse df r"
    by (auto simp: clean_data_survivors)
  then show "Value c \<noteq> None" by (simp add: survives_def)
  from r have "convert_cell parse (map Survey_Year df) (Survey_Year r) \<noteq> NaT"
    by (simp add: survives_def convert_cell_NaT)
  moreover have "\<not> is_Text (convert_cell parse (map Survey_Year df) (Survey_Year r))"
    by (rule convert_cell_not_Text)
  ultimately show "\<exists>t. Survey_Year c = Stamp t"
    using r(3) by (cases "convert_cell parse (map Survey_Year df) (Survey_Year r)") auto
qed

lemma clean_data_fixpoint:
  assumes "\<And>r. r \<in> set df \<Longrightarrow> Value r \<noteq> None \<and> (\<exists>t. Survey_Year r = Stamp t)"
  shows "clean_data mid parse df = df"
proof -
  have row: "clean_row mid parse df r = r \<and> survives mid parse df r" if "r \<in> set df" for r
  proof -
    from assms[OF that] obtain v t where "Value r = Some v" "Survey_Year r = Stamp t"
      by auto
    then show ?thesis
      by (simp add: clean_row_def survives_def fill_value_def date_parses_def)
  qed
  have "filter (survives mid parse df) df = df"
    using row by (simp add: filter_id_conv)
  moreover have "map (clean_row mid parse df) df = df"
    using row by (simp add: map_idI)
  ultimately show ?thesis
    by (simp add: clean_data_survivors)
qed

lemma sort_Nil_iff: "sort xs = [] \<longleftrightarrow> xs = []"
  by (metis length_0_conv length_sort)

lemma median_Nil: "dropna col = [] \<Longrightarrow> median mid col = None"
  by (simp add: median_def)

lemma dropna_Nil_iff: "dropna col = [] \<longleftrightarrow> (\<forall>c\<in>set col. c = None)"
  by (induction col rule: dropna.induct) auto

lemma median_all_missing:
  "\<forall>r\<in>set df. Value r = None \<Longrightarrow> median mid (map Value df) = None"
  by (rule median_Nil) (simp add: dropna_Nil_iff)

lemma length_filter_mono:
  "(\<And>x. x \<in> set xs \<Longrightarrow> P x \<Longrightarrow> Q x) \<Longrightarrow> length (filter P xs) \<le> length (filter Q xs)"
  by (induction xs) auto

lemma is_kth_unique:
  assumes "is_kth xs k a" and "is_kth xs k b"
  shows "a = b"
proof -
  have no_less: False if "is_kth xs k c" "is_kth xs k d" "c < d" for c d :: 'a
  proof -
    have "length (filter (\<lambda>x. x \<le> c) xs) \<le> length (filter (\<lambda>x. x < d) xs)"
      using that(3) by (intro length_filter_mono) auto
    with that(1,2) show False by (simp add: is_kth_def)
  qed
  from no_less[OF assms] no_less[OF assms(2,1)] show ?thesis
    by (meson linorder_neqE)
qed

lemma length_filter_sort: "length (filter P (sort xs)) = length (filter P xs)"
  by (simp add: filter_sort)

lemma sorted_count_less:
  assumes "sorted s" and "k < length s"
  shows "length (filter (\<lambda>x. x < s ! k) s) \<le> k"
proof -
  have "filter (\<lambda>x. x < s ! k) (drop k s) = []"
  proof -
    have "s ! k \<le> x" if "x \<in> set (drop k s)" for x
    proof -
      from that obtain i where "i < length (drop k s)" "x = drop k s ! i"
        by (auto simp: in_set_conv_nth)
      then show ?thesis
        using assms by (simp add: sorted_nth_mono)
    qed
    then show ?thesis by (fastforce simp: filter_empty_conv)
  qed
  then have "filter (\<lambda>x. x < s ! k) s = filter (\<lambda>x. x < s ! k) (take k s)"
    by (metis append.right_neutral append_take_drop_id filter_append)
  moreover have "length (filter (\<lambda>x. x < s ! k) (take k s)) \<le> length (take k s)"
    by (rule length_filter_le)
  moreover have "length (take k s) \<le> k"
    by simp
  ultimately show ?thesis by (simp only: order_trans)
qed

lemma sorted_count_le:
  assumes "sorted s" and "k < length s"
  shows "k < length (filter (\<lambda>x. x \<le> s ! k) s)"
proof -
  have "x \<le> s ! k" if "x \<in> set (take (Suc k) s)" for x
  proof -
    from that obtain i where "i < length (take (Suc k) s)" "x = take (Suc k) s ! i"
      by (auto simp: in_set_conv_nth)
    then show ?thesis
      using assms by (simp add: sorted_nth_mono)
  qed
  then have "filter (\<lambda>x. x \<le> s ! k) (take (Suc k) s) = take (Suc k) s"
    by (simp add: filter_id_conv)
  moreover have "length (filter (\<lambda>x. x \<le> s ! k) (take (Suc k) s))
      \<le> length (filter (\<lambda>x. x \<le> s ! k) (take (Suc k) s @ drop (Suc k) s))"
    unfolding filter_append length_append by (rule le_add1)
  ultimately have "length (take (Suc k) s) \<le> length (filter (\<lambda>x. x \<le> s ! k) s)"
    unfolding append_take_drop_id by simp
  with assms(2) show ?thesis by simp
qed

lemma sort_nth_is_kth:
  assumes "k < length xs"
  shows "is_kth xs k (sort xs ! k)"
proof -
  let ?s = "sort xs"
  have k: "k < length ?s" using assms by simp
  have "?s ! k \<in> set ?s" using k by (rule nth_mem)
  then have mem: "?s ! k \<in> set xs" by simp
  have "length (filter (\<lambda>x. x < ?s ! k) ?s) \<le> k"
    by (rule sorted_count_less) (simp_all add: assms)
  then have less: "length (filter (\<lambda>x. x < ?s ! k) xs) \<le> k"
    by (simp only: length_filter_sort)
  have "k < length (filter (\<lambda>x. x \<le> ?s ! k) ?s)"
    by (rule sorted_count_le) (simp_all add: assms)
  then have le: "k < length (filter (\<lambda>x. x \<le> ?s ! k) xs)"
    by (simp only: length_filter_sort)
  from mem less le show ?thesis by (simp add: is_kth_def)
qed

lemma is_kth_iff: "k < length xs \<Longrightarrow> is_kth xs k a \<longleftrightarrow> a = sort xs ! k"
  using is_kth_unique sort_nth_is_kth by blast

lemma median_odd:
  assumes "odd (length (dropna col))"
  shows "median mid col = Some m \<longleftrightarrow> is_median mid (dropna col) m"
proof -
  let ?xs = "dropna col"
  let ?k = "length ?xs div 2"
  from assms have ne: "?xs \<noteq> []" by auto
  then have k: "?k < length ?xs" by simp
  from assms ne have "median mid col = Some (sort ?xs ! ?k)"
    by (simp add: median_def Let_def sort_Nil_iff)
  moreover from assms ne have "is_median mid ?xs m \<longleftrightarrow> is_kth ?xs ?k m"
    by (simp add: is_median_def Let_def)
  ultimately show ?thesis
    using is_kth_iff[OF k, of m] by auto
qed

lemma median_even:
  assumes "even (length (dropna col))" and "dropna col \<noteq> []"
  shows "median mid col = Some m \<longleftrightarrow> is_median mid (dropna col) m"
proof -
  let ?xs = "dropna col"
  let ?k = "length ?xs div 2"
  define j where "j = ?k - 1"
  let ?a = "sort ?xs ! j" and ?b = "sort ?xs ! ?k"
  from assms(2) have k: "?k < length ?xs"
    by simp
  then have j: "j < length ?xs"
    unfolding j_def by (rule less_imp_diff_less)
  from assms have med: "median mid col = mid ?a ?b"
    by (simp add: median_def Let_def sort_Nil_iff j_def)
  have mem: "?a \<in> set ?xs" "?b \<in> set ?xs"
    using sort_nth_is_kth[OF j] sort_nth_is_kth[OF k] by (simp_all add: is_kth_def)
  from assms have "is_median mid ?xs m \<longleftrightarrow>
      (\<exists>a\<in>set ?xs. \<exists>b\<in>set ?xs. is_kth ?xs j a \<and> is_kth ?xs ?k b \<and> mid a b = Some m)"
    by (simp add: is_median_def Let_def list_ex_iff j_def)
  also have "\<dots> \<longleftrightarrow> mid ?a ?b = Some m"
    using mem by (auto simp: is_kth_iff[OF k] is_kth_iff[OF j])
  finally show ?thesis
    using med by simp
qed

lemma median_iff_is_median: "median mid col = Some m \<longleftrightarrow> is_median mid (dropna col) m"
proof (cases "dropna col = []")
  case True
  then show ?thesis
    by (simp add: median_Nil is_median_def)
next
  case False
  then show ?thesis
    by (cases "odd (length (dropna col))") (simp_all add: median_odd median_even)
qed

lemmas sample_clean_defs =
  clean_data_def assign_Value_def assign_Survey_Year_def fillna_def to_datetime_def
  dropna_subset_def median_def exact_mid_def sample_parse_def sample_row_def

lemma sample_raw_median: "median exact_mid (map Value sample_raw) = Some 20"
  by (simp add: sample_raw_def median_def exact_mid_def sample_row_def)

lemma sample_raw_clean: "clean_data exact_mid sample_parse sample_raw = sample_clean"
  by (simp add: sample_raw_def sample_clean_def sample_clean_defs)

lemma sample_bad_date_clean:
  "clean_data exact_mid sample_parse sample_bad_date =
     [sample_row 0 (Some ''A'') (Some ''M'')
        (Stamp \<lparr>year = 2010, month = 1, day = 1, nanos = 0\<rparr>) (Some 10)]"
  by (simp add: sample_bad_date_def sample_clean_defs)

text \<open>
  Claim C2. Cleaning replaces each missing Value by the median of the
  non-missing Values of the raw column, taken before anything is filled in, and
  leaves the other Values as they are. The value \<open>median_value\<close> that
  \<^verbatim>\<open>clean_data\<close> computes is the median of the non-missing raw Values in
  the sense of \<open>is_median\<close> (the middle value in their order, or the float
  mean of the two middle values), and it is the only one. Whenever \<open>m\<close> is
  that median, the labels and Values of the cleaned frame are those of the raw
  rows whose date parses, in order, with \<open>m\<close> in place of each missing Value.
  When there is no median (no Value is present, or the mean of the two middle
  values is NaN) a missing Value stays missing and its row is dropped. For
  Value = [10, missing, 30] the cleaned Values are [10, 20, 30].
\<close>

theorem clean_data_fills_median:
  "(median mid (map Value raw) = Some m \<longleftrightarrow> is_median mid (dropna (map Value raw)) m)
   \<and> (is_median mid (dropna (map Value raw)) m \<longrightarrow>
        map (\<lambda>c. (label c, Value c)) (clean_data mid parse raw)
          = map (\<lambda>r. (label r, case Value r of None \<Rightarrow> Some m | Some v \<Rightarrow> Some v))
              (filter (\<lambda>r. date_parses parse (map Survey_Year raw) (Survey_Year r)) raw))
   \<and> ((\<forall>m'. \<not> is_median mid (dropna (map Value raw)) m') \<longrightarrow>
        map (\<lambda>c. (label c, Value c)) (clean_data mid parse raw)
          = map (\<lambda>r. (label r, Value r))
              (filter (\<lambda>r. Value r \<noteq> None
                           \<and> date_parses parse (map Survey_Year raw) (Survey_Year r)) raw))"
proof (intro conjI impI)
  show "median mid (map Value raw) = Some m \<longleftrightarrow> is_median mid (dropna (map Value raw)) m"
    by (rule median_iff_is_median)
next
  assume "is_median mid (dropna (map Value raw)) m"
  then have m: "median mid (map Value raw) = Some m"
    by (simp add: median_iff_is_median)
  have "survives mid parse raw r = date_parses parse (map Survey_Year raw) (Survey_Year r)" for r
    by (simp add: survives_def m fill_value_def split: option.splits)
  then have "filter (survives mid parse raw) raw
               = filter (\<lambda>r. date_parses parse (map Survey_Year raw) (Survey_Year r)) raw"
    by presburger
  then show "map (\<lambda>c. (label c, Value c)) (clean_data mid parse raw)
          = map (\<lambda>r. (label r, case Value r of None \<Rightarrow> Some m | Some v \<Rightarrow> Some v))
              (filter (\<lambda>r. date_parses parse (map Survey_Year raw) (Survey_Year r)) raw)"
    by (simp add: clean_data_survivors m fill_value_def comp_def)
next
  assume "\<forall>m'. \<not> is_median mid (dropna (map Value raw)) m'"
  then have "\<forall>m'. median mid (map Value raw) \<noteq> Some m'"
    by (simp add: median_iff_is_median)
  then have m: "median mid (map Value raw) = None"
    by (cases "median mid (map Value raw)") auto
  have "survives mid parse raw r
      = (Value r \<noteq> None \<and> date_parses parse (map Survey_Year raw) (Survey_Year r))" for r
    by (simp add: survives_def m fill_value_def split: option.splits)
  then have "filter (survives mid parse raw) raw
               = filter (\<lambda>r. Value r \<noteq> None
                             \<and> date_parses parse (map Survey_Year raw) (Survey_Year r)) raw"
    by presburger
  then show "map (\<lambda>c. (label c, Value c)) (clean_data mid parse raw)
          = map (\<lambda>r. (label r, Value r))
              (filter (\<lambda>r. Value r \<noteq> None
                           \<and> date_parses parse (map Survey_Year raw) (Survey_Year r)) raw)"
    by (simp add: clean_data_survivors m fill_value_def comp_def split: option.splits)
qed

text \<open>
  The specification's example, where the median is the mean of the two values
  present, and a column whose median (30) differs from its mean (40).
\<close>

theorem clean_data_fills_median_witness:
  "map Value sample_raw = [Some 10, None, Some 30]
   \<and> is_median exact_mid (dropna (map Value sample_raw)) 20
   \<and> map (\<lambda>c. (label c, Value c)) (clean_data exact_mid sample_parse sample_raw)
       = [(0, Some 10), (1, Some 20), (2, Some 30)]
   \<and> map Value sample_skewed = [Some 10, None, Some 30, Some 80]
   \<and> is_median exact_mid (dropna (map Value sample_skewed)) 30
   \<and> map (\<lambda>c. (label c, Value c)) (clean_data exact_mid sample_parse sample_skewed)
       = [(0, Some 10), (1, Some 30), (2, Some 30), (3, Some 80)]"
proof -
  have 1: "is_median exact_mid (dropna (map Value sample_raw)) 20"
    by (simp add: sample_raw_def sample_row_def is_median_def is_kth_def exact_mid_def)
  have 2: "is_median exact_mid (dropna (map Value sample_skewed)) 30"
    by (simp add: sample_skewed_def sample_row_def is_median_def is_kth_def)
  from 1 clean_data_fills_median [where mid = exact_mid and raw = sample_raw and m = 20
      and parse = sample_parse]
  have 3: "map (\<lambda>c. (label c, Value c)) (clean_data exact_mid sample_parse sample_raw)
       = [(0, Some 10), (1, Some 20), (2, Some 30)]"
    by (simp add: sample_raw_def sample_row_def date_parses_def sample_parse_def)
  from 2 clean_data_fills_median [where mid = exact_mid and raw = sample_skewed and m = 30
      and parse = sample_parse]
  have 4: "map (\<lambda>c. (label c, Value c)) (clean_data exact_mid sample_parse sample_skewed)
       = [(0, Some 10), (1, Some 30), (2, Some 30), (3, Some 80)]"
    by (simp add: sample_skewed_def sample_row_def date_parses_def sample_parse_def)
  from 1 2 3 4 show ?thesis
    by (simp add: sample_raw_def sample_skewed_def sample_row_def)
qed

text \<open>
  Claim C3. In a raw frame (its index labels distinct, as \<^verbatim>\<open>read_csv\<close>
  makes them) a row whose Survey Year does not parse as a date is absent from
  the cleaned frame, whatever its other fields hold: no cleaned row bears its
  label. Every row of the cleaned frame has a timestamp as Survey Year and a
  Value that is not missing.
\<close>

theorem clean_data_drops_unparsed_dates:
  assumes "distinct (map label raw)"
  shows "(\<forall>r\<in>set raw. \<not> date_parses parse (map Survey_Year raw) (Survey_Year r)
            \<longrightarrow> label r \<notin> label ` set (clean_data mid parse raw))
       \<and> (\<forall>c\<in>set (clean_data mid parse raw). (\<exists>t. Survey_Year c = Stamp t) \<and> Value c \<noteq> None)"
proof (intro conjI ballI impI)
  fix r
  assume r: "r \<in> set raw"
    and bad: "\<not> date_parses parse (map Survey_Year raw) (Survey_Year r)"
  show "label r \<notin> label ` set (clean_data mid parse raw)"
  proof
    assume "label r \<in> label ` set (clean_data mid parse raw)"
    then obtain r' where r': "r' \<in> set raw" "survives mid parse raw r'" "label r' = label r"
      by (auto simp: clean_data_survivors)
    from assms have "inj_on label (set raw)" by (simp add: distinct_map)
    with r r' have "r' = r" by (auto dest: inj_onD)
    with r' bad show False by (simp add: survives_def)
  qed
next
  fix c assume "c \<in> set (clean_data mid parse raw)"
  then show "\<exists>t. Survey_Year c = Stamp t" by (rule clean_data_invariant)
next
  fix c assume "c \<in> set (clean_data mid parse raw)"
  then show "Value c \<noteq> None" by (rule clean_data_invariant)
qed

theorem clean_data_drops_unparsed_dates_witness:
  "distinct (map label sample_bad_date)
   \<and> map Survey_Year sample_bad_date = [Text ''01/01/2010'', Text ''not-a-date'']
   \<and> \<not> date_parses sample_parse (map Survey_Year sample_bad_date) (Text ''not-a-date'')
   \<and> map label sample_bad_date = [0, 1]
   \<and> 1 \<notin> label ` set (clean_data exact_mid sample_parse sample_bad_date)
   \<and> map label (clean_data exact_mid sample_parse sample_bad_date) = [0]
   \<and> map Survey_Year (clean_data exact_mid sample_parse sample_bad_date)
       = [Stamp \<lparr>year = 2010, month = 1, day = 1, nanos = 0\<rparr>]
   \<and> map Value (clean_data exact_mid sample_parse sample_bad_date) = [Some 10]"
  using clean_data_drops_unparsed_dates
    [where raw = sample_bad_date and parse = sample_parse and mid = exact_mid]
  by (simp add: sample_bad_date_clean)
     (simp add: sample_bad_date_def sample_row_def date_parses_def sample_parse_def)

text \<open>
  Claim C7. Cleaning is idempotent on clean input: a frame that satisfies the
  cleaned invariants (no missing Value, every Survey Year a parsed timestamp)
  is returned unchanged, and so cleaning a cleaned frame again gives the
  cleaned frame: clean(clean(raw)) = clean(raw).
\<close>

theorem clean_data_idempotent:
  "(cleaned_invariants d \<longrightarrow> clean_data mid parse d = d)
   \<and> clean_data mid parse (clean_data mid parse raw) = clean_data mid parse raw"
proof
  show "cleaned_invariants d \<longrightarrow> clean_data mid parse d = d"
  proof
    assume "cleaned_invariants d"
    then have "\<And>r. r \<in> set d \<Longrightarrow> Value r \<noteq> None \<and> (\<exists>t. Survey_Year r = Stamp t)"
      by (simp add: cleaned_invariants_def list_all_iff is_Stamp_iff)
    then show "clean_data mid parse d = d" by (rule clean_data_fixpoint)
  qed
  show "clean_data mid parse (clean_data mid parse raw) = clean_data mid parse raw"
    by (rule clean_data_fixpoint) (auto dest: clean_data_invariant)
qed

theorem clean_data_idempotent_witness:
  "cleaned_invariants sample_clean
   \<and> clean_data exact_mid sample_parse sample_clean = sample_clean
   \<and> clean_data exact_mid sample_parse (clean_data exact_mid sample_parse sample_raw)
       = clean_data exact_mid sample_parse sample_raw"
  using clean_data_idempotent
    [where d = sample_clean and parse = sample_parse and raw = sample_raw and mid = exact_mid]
  by (simp add: cleaned_invariants_def sample_clean_def sample_row_def)

text \<open>
  Claim C8. When every Value of the raw frame is missing, the median is
  undefined (NaN), filling with it leaves every Value missing, and the final
  \<^verbatim>\<open>dropna\<close> removes every row: cleaning returns the empty frame. It does
  not raise: \<open>clean_data\<close> has no failing branch.
\<close>

theorem clean_data_all_values_missing:
  assumes "\<forall>r\<in>set raw. Value r = None"
  shows "median mid (map Value raw) = None \<and> clean_data mid parse raw = []"
proof -
  from assms have m: "median mid (map Value raw) = None"
    by (rule median_all_missing)
  have "filter (survives mid parse raw) raw = []"
    using assms by (simp add: survives_def m fill_value_def filter_empty_conv)
  with m show ?thesis by (simp add: clean_data_survivors)
qed

theorem clean_data_all_values_missing_witness:
  "map Value sample_no_value = [None, None]
   \<and> median exact_mid (map Value sample_no_value) = None
   \<and> clean_data exact_mid sample_parse sample_no_value = []"
  using clean_data_all_values_missing
    [where raw = sample_no_value and parse = sample_parse and mid = exact_mid]
  by (simp add: sample_no_value_def sample_row_def)

text \<open>
  Claim C10. Cleaning changes nothing but Value and Survey Year: the index
  label, Country, Gender, Demographics Question, Demographics Response and
  Question of the cleaned rows are those of raw rows, in the raw order, so each
  surviving row has them unchanged from the raw row it comes from; besides
  filling Value and converting Survey Year, cleaning only drops rows.
\<close>

theorem clean_data_keeps_other_fields:
  "subseq (map other_fields (clean_data mid parse raw)) (map other_fields raw)
   \<and> (\<forall>c\<in>set (clean_data mid parse raw). \<exists>r\<in>set raw. other_fields c = other_fields r)"
proof -
  have eq: "map other_fields (clean_data mid parse raw)
              = map other_fields (filter (survives mid parse raw) raw)"
    by (simp add: clean_data_survivors other_fields_def)
  have 1: "subseq (map other_fields (clean_data mid parse raw)) (map other_fields raw)"
    unfolding eq by (intro subseq_map subseq_filter_left)
  have 2: "\<forall>c\<in>set (clean_data mid parse raw). \<exists>r\<in>set raw. other_fields c = other_fields r"
    by (auto simp: clean_data_survivors other_fields_def)
  from 1 2 show ?thesis ..
qed

theorem clean_data_keeps_other_fields_witness:
  "subseq (map other_fields (clean_data exact_mid sample_parse sample_bad_date))
     (map other_fields sample_bad_date)
   \<and> map other_fields (clean_data exact_mid sample_parse sample_bad_date)
       = [(0, Some ''A'', Some ''M'', Some ''Age'', Some ''15-24'',
           Some ''... if she burns the food'')]"
  using clean_data_keeps_other_fields
    [where parse = sample_parse and raw = sample_bad_date and mid = exact_mid]
  by (simp add: sample_bad_date_clean) (simp add: other_fields_def sample_row_def)

section \<open>Filtering\<close>

lemma mask_and_map: "mask_and (map f xs) (map g xs) = map (\<lambda>x. f x \<and> g x) xs"
  unfolding mask_and_def by (induction xs) auto

lemma select_rows_map: "select_rows xs (map f xs) = filter f xs"
  unfolding select_rows_def by (induction xs) auto

lemma select_rows_subseq: "subseq (select_rows xs m) xs"
  unfolding select_rows_def
proof (induction xs arbitrary: m)
  case Nil
  show ?case by simp
next
  case (Cons x xs)
  show ?case
  proof (cases m)
    case Nil
    then show ?thesis by simp
  next
    case (Cons b bs)
    with Cons.IH[of bs] show ?thesis by auto
  qed
qed

lemma ge_col_years: "ge_col (map year_of (map Survey_Year df)) n
    = map (\<lambda>r. case year_of (Survey_Year r) of None \<Rightarrow> False | Some y \<Rightarrow> y \<ge> n) df"
  by (simp add: ge_col_def comp_def)

lemma le_col_years: "le_col (map year_of (map Survey_Year df)) n
    = map (\<lambda>r. case year_of (Survey_Year r) of None \<Rightarrow> False | Some y \<Rightarrow> y \<le> n) df"
  by (simp add: le_col_def comp_def)

lemma isin_map: "isin (map f df) vals = map (\<lambda>r. in_selection (f r) vals) df"
  by (simp add: isin_def in_selection_def comp_def)

lemma retained_alt:
  "retained p r \<longleftrightarrow>
     ((((case year_of (Survey_Year r) of None \<Rightarrow> False | Some y \<Rightarrow> y \<ge> fst (year_range p))
        \<and> (case year_of (Survey_Year r) of None \<Rightarrow> False | Some y \<Rightarrow> y \<le> snd (year_range p)))
       \<and> in_selection (Country r) (selected_countries p))
      \<and> in_selection (Gender r) (selected_genders p))
     \<and> in_selection (Demographics_Question r) (selected_demographics p)"
  by (cases "Survey_Year r") (auto simp: retained_def)

lemma filtered_datetime:
  assumes "datetime_column df"
  shows "filtered p df = Inr (filter (retained p) df)"
proof -
  from assms have "dt_year (map Survey_Year df) = Inr (map year_of (map Survey_Year df))"
    by (simp add: datetime_column_def dt_year_def)
  then show ?thesis
    unfolding filtered_def
    by (simp only: sum.case ge_col_years le_col_years isin_map mask_and_map select_rows_map
          retained_alt [abs_def])
qed

lemma filtered_text:
  "\<not> datetime_column df \<Longrightarrow> filtered p df = Inl AttributeError"
  by (simp add: datetime_column_def dt_year_def filtered_def)

lemma clean_data_datetime: "datetime_column (clean_data mid parse raw)"
  by (auto simp: datetime_column_def list_ex_iff dest: clean_data_invariant(2))

lemma filtered_subseq: "filtered p df = Inr out \<Longrightarrow> subseq out df"
  by (auto simp: filtered_def select_rows_subseq split: sum.splits)

lemma subseq_set: "subseq xs ys \<Longrightarrow> set xs \<subseteq> set ys"
  by (auto dest: list_emb_set)

lemma subseq_keeps_distinct: "subseq xs ys \<Longrightarrow> distinct ys \<Longrightarrow> distinct xs"
  by (metis in_set_subseqs subseqs_distinctD)

lemma subseq_datetime: "subseq out df \<Longrightarrow> datetime_column df \<Longrightarrow> datetime_column out"
  by (auto simp: datetime_column_def list_ex_iff dest!: subseq_set)

lemma in_selection_empty: "\<not> in_selection c []"
  by (simp add: in_selection_def split: option.splits)

text \<open>
  Claim C1. On every cleaned frame and for every setting of the widgets the
  filter keeps exactly the rows for which all four conditions hold: the year
  of Survey Year within the inclusive bounds, Country among the selected
  countries, Gender among the selected genders, Demographics Question among
  the selected questions. When one of the selections is empty, no row is kept.
\<close>

theorem filtered_retains_all_four:
  "filtered p (clean_data mid parse raw) = Inr (filter (retained p) (clean_data mid parse raw))
   \<and> (selected_countries p = [] \<or> selected_genders p = [] \<or> selected_demographics p = []
        \<longrightarrow> filtered p (clean_data mid parse raw) = Inr [])"
proof -
  have eq: "filtered p (clean_data mid parse raw) = Inr (filter (retained p) (clean_data mid parse raw))"
    by (rule filtered_datetime) (rule clean_data_datetime)
  have "filter (retained p) (clean_data mid parse raw) = []"
    if "selected_countries p = [] \<or> selected_genders p = [] \<or> selected_demographics p = []"
    using that by (auto simp: filter_empty_conv retained_def in_selection_empty)
  with eq show ?thesis by simp
qed

theorem filtered_retains_all_four_witness:
  "filtered sample_params (clean_data exact_mid sample_parse sample_raw)
     = Inr [sample_row 0 (Some ''A'') (Some ''M'')
              (Stamp \<lparr>year = 2010, month = 1, day = 1, nanos = 0\<rparr>) (Some 10),
            sample_row 2 (Some ''A'') (Some ''M'')
              (Stamp \<lparr>year = 2015, month = 1, day = 1, nanos = 0\<rparr>) (Some 30)]
   \<and> selected_countries (sample_params\<lparr>selected_countries := []\<rparr>) = []
   \<and> filtered (sample_params\<lparr>selected_countries := []\<rparr>) (clean_data exact_mid sample_parse sample_raw)
       = Inr []"
  using filtered_retains_all_four
      [where p = sample_params and parse = sample_parse and raw = sample_raw and mid = exact_mid]
    filtered_retains_all_four
      [where p = "sample_params\<lparr>selected_countries := []\<rparr>" and parse = sample_parse
         and raw = sample_raw and mid = exact_mid]
  by (simp add: sample_raw_clean)
     (simp add: sample_clean_def sample_row_def sample_params_def retained_def in_selection_def)

text \<open>
  Claim C9. The filter returns on every cleaned frame, and whatever it returns
  is a subsequence of the frame it was given: every row kept is a row of that
  frame with all its fields, the rows kept stand in their original order, and
  no row is duplicated (distinct index labels stay distinct).
\<close>

theorem filtered_subsequence:
  "(\<exists>out'. filtered p (clean_data mid parse raw) = Inr out')
   \<and> (filtered p df = Inr out \<longrightarrow>
        subseq out df \<and> set out \<subseteq> set df
        \<and> (distinct (map label df) \<longrightarrow> distinct (map label out)))"
proof -
  have "\<exists>out'. filtered p (clean_data mid parse raw) = Inr out'"
    by (simp add: filtered_datetime clean_data_datetime)
  moreover have "subseq out df \<and> set out \<subseteq> set df
      \<and> (distinct (map label df) \<longrightarrow> distinct (map label out))"
    if "filtered p df = Inr out"
  proof -
    from that have sub: "subseq out df" by (rule filtered_subseq)
    then have "subseq (map label out) (map label df)" by (rule subseq_map)
    with sub show ?thesis
      using subseq_set subseq_keeps_distinct by blast
  qed
  ultimately show ?thesis by blast
qed

theorem filtered_subsequence_witness:
  "filtered sample_params sample_clean = Inr [sample_clean ! 0, sample_clean ! 2]
   \<and> subseq [sample_clean ! 0, sample_clean ! 2] sample_clean
   \<and> distinct (map label sample_clean)
   \<and> distinct (map label [sample_clean ! 0, sample_clean ! 2])"
  using filtered_subsequence
    [where p = sample_params and df = sample_clean
       and out = "[sample_clean ! 0, sample_clean ! 2]"]
  by (simp add: filtered_datetime datetime_column_def sample_clean_def sample_row_def
        sample_params_def retained_def in_selection_def)

section \<open>Aggregations\<close>

lemma sum_list_insort_key: "sum_list (map g (insort_key f x xs)) = g x + sum_list (map g xs)"
  for g :: "'a \<Rightarrow> nat"
  by (induction xs) auto

lemma sum_list_sort_key: "sum_list (map g (sort_key f xs)) = sum_list (map g xs)"
  for g :: "'a \<Rightarrow> nat"
  by (induction xs) (auto simp: sum_list_insort_key)

lemma sum_counts_first_seen:
  "sum_list (map (count_list xs) (rev (remdups (rev xs)))) = length xs"
proof -
  have "sum_list (map (count_list xs) (rev (remdups (rev xs)))) = sum (count_list xs) (set xs)"
    by (subst sum_list_distinct_conv_sum_set) auto
  also have "\<dots> = length xs"
    by (rule sum_count_set) auto
  finally show ?thesis .
qed

lemma sum_value_counts: "sum_list (map snd (value_counts col)) = length (dropna col)"
proof -
  have "map snd (map (\<lambda>k. (k, count_list xs k)) ks) = map (count_list xs) ks" for xs ks :: "'a list"
    by simp
  then show ?thesis
    unfolding value_counts_def Let_def sum_list_sort_key
    by (simp only: sum_counts_first_seen)
qed

lemma length_dropna_map:
  "length (dropna (map f xs)) = length (filter (\<lambda>r. f r \<noteq> None) xs)"
proof (induction xs)
  case Nil
  show ?case by simp
next
  case (Cons a xs)
  then show ?case by (cases "f a") simp_all
qed

lemma filtered_Gender:
  assumes "filtered p df = Inr out" and "r \<in> set out"
  shows "Gender r \<noteq> None"
proof -
  from assms(1) have dt: "datetime_column df"
    using filtered_text[of df p] by auto
  with assms show ?thesis
    by (auto simp: filtered_datetime retained_def in_selection_def split: option.splits)
qed

lemma groupby_mean_keys: "map fst (groupby_mean avg keys vals) = group_keys keys"
  by (simp add: groupby_mean_def groupby_def comp_def)

lemma group_keys_sorted: "sorted (group_keys keys)" "distinct (group_keys keys)"
  by (simp_all add: group_keys_def)

lemma df_yearly_avg_datetime:
  "datetime_column df \<Longrightarrow>
     df_yearly_avg avg df = Inr (groupby_mean avg (map year_of (map Survey_Year df)) (map Value df))"
  by (simp add: df_yearly_avg_def datetime_column_def dt_year_def)

lemma df_filtered_datetime:
  assumes "df_filtered None b p (clean_data mid parse raw) = Inr df"
  shows "datetime_column df"
proof (cases b)
  case True
  with assms have "filtered p (clean_data mid parse raw) = Inr df"
    by (simp add: df_filtered_def)
  then show ?thesis
    using subseq_datetime[OF filtered_subseq clean_data_datetime] by blast
next
  case False
  with assms have "df = clean_data mid parse raw"
    by (simp add: df_filtered_def)
  then show ?thesis by (simp add: clean_data_datetime)
qed

lemma group_keys_Nil: "group_keys [] = []"
  by (simp add: group_keys_def)

lemma groupby_mean_Nil: "groupby_mean avg [] [] = []"
  by (simp add: groupby_mean_def groupby_def group_keys_Nil)

text \<open>
  Claim C4. On the empty frame every aggregation of the script returns its
  empty result, and the two that can fail (the year grouping, which reads
  \<^verbatim>\<open>.dt.year\<close>, and the pivot) return normally: the gender counts, the
  joined question text, the means by question, by year, by demographics
  question and response, by demographics question and question, the pivoted
  heat map, the means by demographics question and gender, and the group
  sizes.
\<close>

theorem aggregations_of_empty_frame:
  "gender_counts [] = []
   \<and> text_of_questions [] = []
   \<and> df_question_avg avg [] = []
   \<and> df_yearly_avg avg [] = Inr []
   \<and> df_sunburst_data avg [] = []
   \<and> df_heatmap_data avg [] = []
   \<and> heatmap_data avg [] = Inr \<lparr>pivot_index = [], pivot_columns = [], pivot_cells = []\<rparr>
   \<and> df_grouped_gender avg [] = []
   \<and> df_stacked_bar_data [] = []"
proof -
  have 1: "gender_counts [] = []" by (simp add: gender_counts_def value_counts_def)
  have 2: "text_of_questions [] = []" by (simp add: text_of_questions_def)
  have 3: "df_question_avg avg [] = []" by (simp add: df_question_avg_def groupby_mean_Nil)
  have 4: "df_yearly_avg avg [] = Inr []"
    by (simp add: df_yearly_avg_def dt_year_def groupby_mean_Nil)
  have 5: "df_sunburst_data avg [] = []" by (simp add: df_sunburst_data_def groupby_mean_Nil)
  have 6: "df_heatmap_data avg [] = []" by (simp add: df_heatmap_data_def groupby_mean_Nil)
  have 7: "heatmap_data avg [] = Inr \<lparr>pivot_index = [], pivot_columns = [], pivot_cells = []\<rparr>"
    by (simp add: heatmap_data_def 6 pivot_def)
  have 8: "df_grouped_gender avg [] = []" by (simp add: df_grouped_gender_def groupby_mean_Nil)
  have 9: "df_stacked_bar_data [] = []"
    by (simp add: df_stacked_bar_data_def groupby_size_def groupby_def group_keys_Nil)
  from 1 2 3 4 5 6 7 8 9 show ?thesis by simp
qed

text \<open>
  Claim C5, as the code has it. \<^verbatim>\<open>value_counts()\<close> leaves out the rows
  whose Gender is missing, so the counts add up to the number of rows with a
  Gender. They add up to the number of all rows when no row lacks a Gender,
  and that is so for every frame the filter returns, since the selected
  genders are strings.
\<close>

theorem gender_counts_total:
  "sum_list (map snd (gender_counts df)) = length (filter (\<lambda>r. Gender r \<noteq> None) df)
   \<and> ((\<forall>r\<in>set df. Gender r \<noteq> None) \<longrightarrow> sum_list (map snd (gender_counts df)) = length df)
   \<and> (filtered p df_clean = Inr df \<longrightarrow> sum_list (map snd (gender_counts df)) = length df)"
proof -
  have 1: "sum_list (map snd (gender_counts df)) = length (filter (\<lambda>r. Gender r \<noteq> None) df)"
    by (simp add: gender_counts_def sum_value_counts length_dropna_map)
  have 2: "sum_list (map snd (gender_counts df)) = length df"
    if "\<forall>r\<in>set df. Gender r \<noteq> None"
    using that unfolding 1 by (simp add: filter_id_conv)
  have 3: "sum_list (map snd (gender_counts df)) = length df"
    if "filtered p df_clean = Inr df"
    by (rule 2) (auto dest: filtered_Gender[OF that])
  from 1 2 3 show ?thesis by blast
qed

theorem gender_counts_total_witness:
  "filtered sample_params sample_clean = Inr [sample_clean ! 0, sample_clean ! 2]
   \<and> map Gender [sample_clean ! 0, sample_clean ! 2] = [Some ''M'', Some ''M'']
   \<and> sum_list (map snd (gender_counts [sample_clean ! 0, sample_clean ! 2])) = 2"
  using gender_counts_total
    [where df = "[sample_clean ! 0, sample_clean ! 2]" and p = sample_params
       and df_clean = sample_clean]
  by (simp add: filtered_datetime datetime_column_def sample_clean_def sample_row_def
        sample_params_def retained_def in_selection_def)

text \<open>
  The claim as the specification states it, for every frame the charts may
  read, fails on the first run of the script: the session slot then holds the
  whole cleaned frame, and a row read from the file without a Gender is in it
  but in no group.
\<close>

theorem gender_counts_total_counterexample:
  "df_filtered None False sample_params (clean_data exact_mid sample_parse sample_no_gender)
     = Inr (clean_data exact_mid sample_parse sample_no_gender)
   \<and> length (clean_data exact_mid sample_parse sample_no_gender) = 1
   \<and> sum_list (map snd (gender_counts (clean_data exact_mid sample_parse sample_no_gender))) = 0
   \<and> sum_list (map snd (gender_counts (clean_data exact_mid sample_parse sample_no_gender)))
       \<noteq> length (clean_data exact_mid sample_parse sample_no_gender)"
  by (simp add: df_filtered_def sample_no_gender_def sample_clean_defs gender_counts_def
        value_counts_def)

text \<open>
  Claim C6. The means by year list the years in ascending order, each year
  once; and on every frame the charts read after a first run (the cleaned
  frame, or what the filter made of it) the aggregation returns.
\<close>

theorem df_yearly_avg_ascending:
  "(df_yearly_avg avg df = Inr t \<longrightarrow> sorted (map fst t) \<and> distinct (map fst t))
   \<and> (df_filtered None b p (clean_data mid parse raw) = Inr df \<longrightarrow> (\<exists>t'. df_yearly_avg avg df = Inr t'))"
proof -
  have "sorted (map fst t) \<and> distinct (map fst t)" if "df_yearly_avg avg df = Inr t"
    using that
    by (auto simp: df_yearly_avg_def groupby_mean_keys group_keys_sorted split: sum.splits)
  moreover have "\<exists>t'. df_yearly_avg avg df = Inr t'"
    if "df_filtered None b p (clean_data mid parse raw) = Inr df"
    using df_filtered_datetime[OF that] by (simp add: df_yearly_avg_datetime)
  ultimately show ?thesis by blast
qed

theorem df_yearly_avg_ascending_witness:
  "df_filtered None False sample_params (clean_data exact_mid sample_parse sample_raw) = Inr sample_clean
   \<and> df_yearly_avg exact_avg sample_clean = Inr [(2010, Some 10), (2015, Some 25)]
   \<and> sorted (map fst [(2010::int, Some (10::rat)), (2015, Some 25)])
   \<and> distinct (map fst [(2010::int, Some (10::rat)), (2015, Some 25)])"
  using df_yearly_avg_ascending
    [where df = sample_clean and t = "[(2010, Some 10), (2015, Some 25)]" and b = False
       and p = sample_params and parse = sample_parse and raw = sample_raw
       and avg = exact_avg and mid = exact_mid]
  by (simp add: df_filtered_def sample_raw_clean)
     (simp add: df_yearly_avg_def dt_year_def groupby_mean_def groupby_def group_keys_def
        mean_def exact_avg_def sample_clean_def sample_row_def)

end
